theory Spec2Isabelle
  imports Complex_Main
begin

section \<open>JavaScript values as the frontend handles them\<close>

text \<open>
  The frontend receives parsed JSON bodies and reads their properties. A value is one of
  the JSON kinds, or \<open>undefined\<close> (what reading an absent property gives). The code below
  does two things with a number: it tests it for truthiness and it converts it to a
  string. A number is therefore kept as what these two see of it, the text that
  \<open>String(n)\<close> gives and whether it is truthy (neither zero nor NaN). An object is the
  list of its own properties; a lookup takes the first entry of a name.
\<close>

datatype json =
    JUndefined
  | JNull
  | JBool bool
  | JNum (num_text: string) (num_truthy: bool)
  | JStr string
  | JArr "json list"
  | JObj "(string \<times> json) list"

datatype js_error =
    ReferenceError string
  | TypeError string
  | QuotaExceededError
  | FetchError string

text \<open>What \<open>if (v)\<close>, \<open>v && ...\<close> and \<open>v || ...\<close> test.\<close>

fun truthy :: "json \<Rightarrow> bool" where
  "truthy JUndefined = False"
| "truthy JNull = False"
| "truthy (JBool b) = b"
| "truthy (JNum s b) = b"
| "truthy (JStr s) = (s \<noteq> [])"
| "truthy (JArr xs) = True"
| "truthy (JObj kvs) = True"

text \<open>\<open>a || b\<close>\<close>

definition js_or :: "json \<Rightarrow> json \<Rightarrow> json" where
  "js_or a b = (if truthy a then a else b)"

text \<open>
  Member access \<open>v.k\<close>, for the property names this code reads (none of them is a
  property of \<open>Object.prototype\<close>, or a built-in property of a string, a number, a
  boolean or an array): it throws a TypeError on \<open>null\<close> and \<open>undefined\<close>, and gives
  \<open>undefined\<close> where the property is absent.
\<close>

fun js_member :: "json \<Rightarrow> string \<Rightarrow> js_error + json" where
  "js_member JUndefined k = Inl (TypeError k)"
| "js_member JNull k = Inl (TypeError k)"
| "js_member (JObj kvs) k = Inr (case map_of kvs k of Some v \<Rightarrow> v | None \<Rightarrow> JUndefined)"
| "js_member v k = Inr JUndefined"

text \<open>
  The conversion to a string that \<open>sessionStorage.setItem\<close> and template literals apply.
  An array is joined with commas, \<open>null\<close> and \<open>undefined\<close> elements giving the empty
  string. An object parsed from JSON is converted by its \<open>toString\<close>: without an own
  property of that name it inherits the one that gives \<open>[object Object]\<close>; with one, the
  value is JSON and so not callable, \<open>valueOf\<close> (own and not callable, or inherited and
  returning the object) does not help either, and the conversion throws a TypeError.
\<close>

fun js_to_string :: "json \<Rightarrow> js_error + string"
  and js_join :: "json list \<Rightarrow> js_error + string" where
  "js_to_string JUndefined = Inr ''undefined''"
| "js_to_string JNull = Inr ''null''"
| "js_to_string (JBool b) = Inr (if b then ''true'' else ''false'')"
| "js_to_string (JNum s b) = Inr s"
| "js_to_string (JStr s) = Inr s"
| "js_to_string (JArr xs) = js_join xs"
| "js_to_string (JObj kvs) =
     (if ''toString'' \<in> fst ` set kvs
      then Inl (TypeError ''Cannot convert object to primitive value'')
      else Inr ''[object Object]'')"
| "js_join [] = Inr []"
| "js_join (x # xs) =
     (case (if x = JNull \<or> x = JUndefined then Inr [] else js_to_string x) of
        Inl e \<Rightarrow> Inl e
      | Inr s \<Rightarrow>
          (if xs = [] then Inr s
           else (case js_join xs of Inl e \<Rightarrow> Inl e | Inr t \<Rightarrow> Inr (s @ '','' @ t))))"

text \<open>
  A request as the code builds it; the body is the object handed to \<open>JSON.stringify\<close>.
  A response carries \<open>ok\<close>, \<open>statusText\<close> and what \<open>response.json()\<close> resolves to
  (\<open>Inl\<close> when it rejects). The network is a function from the request to the outcome of
  \<open>await fetch(...)\<close>: \<open>Inl\<close> when the promise rejects.
\<close>

record request =
  url :: string
  http_method :: string
  headers :: "(string \<times> string) list"
  body :: json

record response =
  ok :: bool
  statusText :: string
  json_body :: "js_error + json"

type_synonym network = "request \<Rightarrow> js_error + response"

text \<open>\<open>await fetch(...)\<close> followed by \<open>await response.json()\<close>, with no look at \<open>ok\<close>.\<close>

definition fetch_json :: "network \<Rightarrow> request \<Rightarrow> js_error + json" where
  "fetch_json fetch req = (case fetch req of Inl e \<Rightarrow> Inl e | Inr r \<Rightarrow> json_body r)"

text \<open>
  \<open>sessionStorage.setItem(k, v)\<close>: the value is converted to a string first, which can
  throw; the browser then stores it or, when its quota is exceeded, throws. Whether the
  browser takes a write is its own affair and a parameter here.
\<close>

definition setItem ::
  "(string \<Rightarrow> string \<Rightarrow> bool) \<Rightarrow> (string \<rightharpoonup> string) \<Rightarrow> string \<Rightarrow> json
     \<Rightarrow> js_error + (string \<rightharpoonup> string)" where
  "setItem accepts store k v =
     (case js_to_string v of
        Inl e \<Rightarrow> Inl e
      | Inr s \<Rightarrow> if accepts k s then Inr (store(k \<mapsto> s)) else Inl QuotaExceededError)"

section \<open>contexts/authContext.js\<close>

text \<open>
  The state the provider holds (\<open>useState\<close>) and the browser's \<open>sessionStorage\<close>.
\<close>

record auth_world =
  user :: json
  token :: json
  loading :: bool
  sessionStorage :: "string \<rightharpoonup> string"

definition API_BASE_URL :: string where
  "API_BASE_URL = ''/api''"

definition login_request :: "string \<Rightarrow> string \<Rightarrow> request" where
  "login_request username password =
     \<lparr> url = API_BASE_URL @ ''/auth/login'',
       http_method = ''POST'',
       headers = [(''Content-Type'', ''application/json'')],
       body = JObj [(''username'', JStr username), (''password'', JStr password)] \<rparr>"

text \<open>
  \<open>login\<close>: the \<open>try\<close> block is the inner \<open>case\<close>, whose \<open>Inl\<close> is a throw; the
  \<open>catch\<close> turns every throw into the network-error object. The only statement of the
  \<open>try\<close> that changes anything before a later one can throw is \<open>setItem\<close>, and when it
  throws it has stored nothing; \<open>setToken\<close> and \<open>setUser\<close> do not throw.
\<close>

definition login ::
  "network \<Rightarrow> (string \<Rightarrow> string \<Rightarrow> bool) \<Rightarrow> string \<Rightarrow> string \<Rightarrow> auth_world \<Rightarrow> json \<times> auth_world" where
  "login fetch accepts username password w =
     (case
        (case fetch_json fetch (login_request username password) of
           Inl e \<Rightarrow> Inl e
         | Inr data \<Rightarrow>
             (case js_member data ''success'' of
                Inl e \<Rightarrow> Inl e
              | Inr s \<Rightarrow>
                  (case (if truthy s then js_member data ''token'' else Inr s) of
                     Inl e \<Rightarrow> Inl e
                   | Inr c \<Rightarrow>
                       if truthy c then
                         (case js_member data ''token'' of
                            Inl e \<Rightarrow> Inl e
                          | Inr t \<Rightarrow>
                              (case setItem accepts (sessionStorage w) ''token'' t of
                                 Inl e \<Rightarrow> Inl e
                               | Inr store \<Rightarrow>
                                   (case js_member data ''user'' of
                                      Inl e \<Rightarrow> Inl e
                                    | Inr u \<Rightarrow>
                                        Inr (JObj [(''success'', JBool True)],
                                             w\<lparr> sessionStorage := store, token := t,
                                                user := u \<rparr>))))
                       else
                         (case js_member data ''message'' of
                            Inl e \<Rightarrow> Inl e
                          | Inr m \<Rightarrow>
                              Inr (JObj [(''success'', JBool False),
                                         (''error'', js_or m (JStr ''Login failed''))],
                                   w)))))
      of
        Inr r \<Rightarrow> r
      | Inl e \<Rightarrow>
          (JObj [(''success'', JBool False),
                 (''error'', JStr ''Network error. Please try again.'')],
           w))"

definition register_request :: "string \<Rightarrow> string \<Rightarrow> string \<Rightarrow> request" where
  "register_request username email password =
     \<lparr> url = API_BASE_URL @ ''/auth/register'',
       http_method = ''POST'',
       headers = [(''Content-Type'', ''application/json'')],
       body = JObj [(''username'', JStr username), (''email'', JStr email),
                    (''password'', JStr password)] \<rparr>"

definition register ::
  "network \<Rightarrow> (string \<Rightarrow> string \<Rightarrow> bool) \<Rightarrow> string \<Rightarrow> string \<Rightarrow> string \<Rightarrow> auth_world \<Rightarrow> json \<times> auth_world" where
  "register fetch accepts username email password w =
     (case
        (case fetch_json fetch (register_request username email password) of
           Inl e \<Rightarrow> Inl e
         | Inr data \<Rightarrow>
             (case js_member data ''success'' of
                Inl e \<Rightarrow> Inl e
              | Inr s \<Rightarrow>
                  (case (if truthy s then js_member data ''token'' else Inr s) of
                     Inl e \<Rightarrow> Inl e
                   | Inr c \<Rightarrow>
                       if truthy c then
                         (case js_member data ''token'' of
                            Inl e \<Rightarrow> Inl e
                          | Inr t \<Rightarrow>
                              (case setItem accepts (sessionStorage w) ''token'' t of
                                 Inl e \<Rightarrow> Inl e
                               | Inr store \<Rightarrow>
                                   (case js_member data ''user'' of
                                      Inl e \<Rightarrow> Inl e
                                    | Inr u \<Rightarrow>
                                        Inr (JObj [(''success'', JBool True)],
                                             w\<lparr> sessionStorage := store, token := t,
                                                user := u \<rparr>))))
                       else
                         (case js_member data ''message'' of
                            Inl e \<Rightarrow> Inl e
                          | Inr m \<Rightarrow>
                              Inr (JObj [(''success'', JBool False),
                                         (''error'', js_or m (JStr ''Registration failed''))],
                                   w)))))
      of
        Inr r \<Rightarrow> r
      | Inl e \<Rightarrow>
          (JObj [(''success'', JBool False),
                 (''error'', JStr ''Network error. Please try again.'')],
           w))"

text \<open>
  The condition of the claim, read off the response alone: the body is an object whose
  \<open>success\<close> is truthy and whose \<open>token\<close> is present, that is truthy, which is what the
  guard \<open>data.success && data.token\<close> asks of it. The result is that token.
\<close>

definition granted_token :: "js_error + json \<Rightarrow> json option" where
  "granted_token r =
     (case r of
        Inr (JObj kvs) \<Rightarrow>
          (case (map_of kvs ''success'', map_of kvs ''token'') of
             (Some s, Some t) \<Rightarrow> if truthy s \<and> truthy t then Some t else None
           | _ \<Rightarrow> None)
      | _ \<Rightarrow> None)"

definition field_or_undefined :: "js_error + json \<Rightarrow> string \<Rightarrow> json" where
  "field_or_undefined r k =
     (case r of
        Inr (JObj kvs) \<Rightarrow> (case map_of kvs k of Some v \<Rightarrow> v | None \<Rightarrow> JUndefined)
      | _ \<Rightarrow> JUndefined)"

definition failure_object :: "json \<Rightarrow> bool" where
  "failure_object r =
     (case r of
        JObj [(k1, JBool False), (k2, e)] \<Rightarrow> k1 = ''success'' \<and> k2 = ''error'' \<and> truthy e
      | _ \<Rightarrow> False)"

section \<open>components/savedQueries.js\<close>

text \<open>
  The component's props that carry data, and its \<open>useState\<close> cells. The callbacks
  \<open>onLoadQuery\<close> and \<open>onQuerySaved\<close> are names in scope, with no state of their own.
\<close>

record sq_props =
  sq_token :: json
  currentQuery :: json

record sq_state =
  savedQueries :: json
  sq_loading :: bool
  sq_error :: json
  editingId :: json
  editName :: json
  savingCurrent :: bool
  newQueryName :: string

text \<open>
  A name of the scope chain is bound to a data value or to a function. Reading a name that
  no enclosing scope binds throws a ReferenceError.
\<close>

datatype binding = Val json | Fun

definition lookup_identifier :: "(string \<times> binding) list \<Rightarrow> string \<Rightarrow> js_error + binding" where
  "lookup_identifier scope x =
     (case map_of scope x of None \<Rightarrow> Inl (ReferenceError x) | Some b \<Rightarrow> Inr b)"

definition binding_member :: "binding \<Rightarrow> string \<Rightarrow> js_error + json" where
  "binding_member b k = (case b of Val v \<Rightarrow> js_member v k | Fun \<Rightarrow> Inr JUndefined)"

text \<open>
  The names visible inside \<open>updateQuery\<close>, innermost first: its two parameters, the
  bindings of the component function \<open>SavedQueries\<close> (props, state cells and their
  setters, the functions it declares), the module's imports and constants, and the globals
  the module uses. The parameter \<open>query\<close> of \<open>startEdit\<close> and of the callback of
  \<open>savedQueries.map\<close> belongs to those functions only.
\<close>

definition updateQuery_scope ::
  "sq_props \<Rightarrow> sq_state \<Rightarrow> json \<Rightarrow> string \<Rightarrow> (string \<times> binding) list" where
  "updateQuery_scope p st queryId newName =
     [(''queryId'', Val queryId), (''newName'', Val (JStr newName)),
      (''token'', Val (sq_token p)), (''onLoadQuery'', Fun),
      (''currentQuery'', Val (currentQuery p)), (''onQuerySaved'', Fun),
      (''savedQueries'', Val (savedQueries st)), (''setSavedQueries'', Fun),
      (''loading'', Val (JBool (sq_loading st))), (''setLoading'', Fun),
      (''error'', Val (sq_error st)), (''setError'', Fun),
      (''editingId'', Val (editingId st)), (''setEditingId'', Fun),
      (''editName'', Val (editName st)), (''setEditName'', Fun),
      (''savingCurrent'', Val (JBool (savingCurrent st))), (''setSavingCurrent'', Fun),
      (''newQueryName'', Val (JStr (newQueryName st))), (''setNewQueryName'', Fun),
      (''loadSavedQueries'', Fun), (''saveCurrentQuery'', Fun), (''updateQuery'', Fun),
      (''deleteQuery'', Fun), (''startEdit'', Fun), (''cancelEdit'', Fun), (''saveEdit'', Fun),
      (''React'', Fun), (''useState'', Fun), (''useEffect'', Fun),
      (''API_BASE_URL'', Val (JStr API_BASE_URL)), (''SavedQueries'', Fun),
      (''fetch'', Fun), (''JSON'', Fun), (''console'', Fun), (''window'', Fun)]"

text \<open>
  The headers of an authorised request; the template literal converts the token to a
  string, which can throw.
\<close>

definition auth_headers :: "json \<Rightarrow> js_error + (string \<times> string) list" where
  "auth_headers tok =
     (case js_to_string tok of
        Inl e \<Rightarrow> Inl e
      | Inr s \<Rightarrow>
          Inr [(''Authorization'', ''Bearer '' @ s), (''Content-Type'', ''application/json'')])"

text \<open>
  Every function of the component returns the new state and the requests it sent, in
  order. \<open>loadSavedQueries\<close> catches its own throws and always clears \<open>loading\<close>.
\<close>

definition loadSavedQueries :: "network \<Rightarrow> sq_props \<Rightarrow> sq_state \<Rightarrow> sq_state \<times> request list" where
  "loadSavedQueries fetch p st =
     (let st1 = st\<lparr> sq_loading := True, sq_error := JNull \<rparr> in
      case
        (case auth_headers (sq_token p) of
           Inl e \<Rightarrow> Inl (e, [])
         | Inr hs \<Rightarrow>
             (let req = \<lparr> url = API_BASE_URL @ ''/queries'', http_method = ''GET'',
                            headers = hs, body = JUndefined \<rparr>
              in case fetch_json fetch req of
                   Inl e \<Rightarrow> Inl (e, [req])
                 | Inr data \<Rightarrow>
                     (case js_member data ''success'' of
                        Inl e \<Rightarrow> Inl (e, [req])
                      | Inr s \<Rightarrow>
                          if truthy s then
                            (case js_member data ''queries'' of
                               Inl e \<Rightarrow> Inl (e, [req])
                             | Inr qs \<Rightarrow>
                                 Inr (st1\<lparr> savedQueries := js_or qs (JArr []) \<rparr>, [req]))
                          else
                            (case js_member data ''message'' of
                               Inl e \<Rightarrow> Inl (e, [req])
                             | Inr m \<Rightarrow>
                                 Inr (st1\<lparr> sq_error :=
                                              js_or m (JStr ''Failed to load queries'') \<rparr>,
                                      [req])))))
      of
        Inr (st2, reqs) \<Rightarrow> (st2\<lparr> sq_loading := False \<rparr>, reqs)
      | Inl (e, reqs) \<Rightarrow>
          (st1\<lparr> sq_error := JStr ''Failed to load saved queries'', sq_loading := False \<rparr>,
           reqs))"

text \<open>
  \<open>updateQuery\<close>: the arguments of \<open>fetch\<close> are evaluated before the call, in order: the
  URL (which converts \<open>queryId\<close>), the headers (which convert \<open>token\<close>), and the body,
  which reads \<open>query.queryContent\<close>. A throw carries the requests sent before it.
\<close>

definition updateQuery ::
  "network \<Rightarrow> sq_props \<Rightarrow> json \<Rightarrow> string \<Rightarrow> sq_state \<Rightarrow> sq_state \<times> request list" where
  "updateQuery fetch p queryId newName st =
     (case
        (case js_to_string queryId of
           Inl e \<Rightarrow> Inl (e, [])
         | Inr qid \<Rightarrow>
        (case auth_headers (sq_token p) of
           Inl e \<Rightarrow> Inl (e, [])
         | Inr hs \<Rightarrow>
        (case lookup_identifier (updateQuery_scope p st queryId newName) ''query'' of
           Inl e \<Rightarrow> Inl (e, [])
         | Inr q \<Rightarrow>
             (case binding_member q ''queryContent'' of
                Inl e \<Rightarrow> Inl (e, [])
              | Inr content \<Rightarrow>
                  (let req = \<lparr> url = API_BASE_URL @ ''/queries/'' @ qid,
                                 http_method = ''PUT'',
                                 headers = hs,
                                 body = JObj [(''queryText'', content),
                                              (''queryName'', JStr newName)] \<rparr>
                   in case fetch_json fetch req of
                        Inl e \<Rightarrow> Inl (e, [req])
                      | Inr data \<Rightarrow>
                          (case js_member data ''success'' of
                             Inl e \<Rightarrow> Inl (e, [req])
                           | Inr s \<Rightarrow>
                               if truthy s then
                                 (case loadSavedQueries fetch p st of
                                    (st1, reqs) \<Rightarrow>
                                      Inr (st1\<lparr> editingId := JNull, editName := JStr [] \<rparr>,
                                           req # reqs))
                               else
                                 (case js_member data ''message'' of
                                    Inl e \<Rightarrow> Inl (e, [req])
                                  | Inr m \<Rightarrow>
                                      Inr (st\<lparr> sq_error :=
                                                  js_or m (JStr ''Failed to update query'') \<rparr>,
                                           [req]))))))))
      of
        Inr r \<Rightarrow> r
      | Inl (e, reqs) \<Rightarrow> (st\<lparr> sq_error := JStr ''Failed to update query'' \<rparr>, reqs))"

definition cancelEdit :: "sq_state \<Rightarrow> sq_state" where
  "cancelEdit st = st\<lparr> editingId := JNull, editName := JStr [] \<rparr>"

text \<open>
  \<open>saveEdit\<close>. \<open>editName\<close> is what \<open>startEdit\<close> or the input field last set it to;
  \<open>editName.trim()\<close> throws a TypeError, outside any \<open>try\<close>, unless it is a string.
  \<open>String.prototype.trim\<close> belongs to the engine; it is the parameter \<open>js_trim\<close>, of
  which the code uses only whether its result is empty and the result.
\<close>

definition saveEdit ::
  "(string \<Rightarrow> string) \<Rightarrow> network \<Rightarrow> sq_props \<Rightarrow> json \<Rightarrow> sq_state
     \<Rightarrow> js_error + sq_state \<times> request list" where
  "saveEdit js_trim fetch p queryId st =
     (case editName st of
        JStr s \<Rightarrow>
          Inr (if js_trim s \<noteq> [] then updateQuery fetch p queryId (js_trim s) st
               else (cancelEdit st, []))
      | v \<Rightarrow> Inl (TypeError ''trim''))"

section \<open>The query pipeline of the backend\<close>

text \<open>
  The backend (\<open>services/queryProcessor.py\<close>, \<open>llm/provider.py\<close>,
  \<open>llm/geminiProvider.py\<close>, \<open>database/connection.py\<close>) is not among the sources at
  hand; only its caller \<open>App.js\<close> is. The pipeline is therefore written down from the
  specification, component by component, and each definition says which sentences it
  follows.
\<close>

subsection \<open>Data model\<close>

text \<open>
  Modelled from the spec: the data model of section 3, which the absent backend declares.
  A SchemaDescriptor is a version and the ordered tables, each an ordered list of columns
  with name, type and description.
\<close>

record ColumnSpec =
  c_name :: string
  c_type :: string
  c_description :: string

record TableSpec =
  t_name :: string
  t_columns :: "ColumnSpec list"

record SchemaDescriptor =
  schema_version :: string
  tables :: "TableSpec list"

text \<open>
  Modelled from the spec: GenerationRequest and GenerationResult of section 3. Seconds
  are rationals here, where the backend has floats.
\<close>

record GenerationRequest =
  question :: string
  schemaContext :: string
  modelId :: string

record GenerationResult =
  rawText :: string
  result_modelId :: string
  elapsedSeconds :: rat

text \<open>
  Modelled from the spec: ValidatedStatement of section 3, whose only statement kind is
  \<open>SELECT\<close>.
\<close>

datatype StatementKind = SELECT

record ValidatedStatement =
  sql :: string
  statementKind :: StatementKind

text \<open>
  Modelled from the spec: QueryResult of section 3, with the value set of section 4.4
  (numbers, text, null); a row is a mapping from column to value, kept in column order.
\<close>

datatype sql_value = SqlNull | SqlNumber rat | SqlText string

record QueryResult =
  columns :: "string list"
  rows :: "(string \<times> sql_value) list list"
  rowCount :: nat
  dbElapsedSeconds :: rat

text \<open>
  Modelled from the spec: QueryOutcome of section 3, a success with result, generated SQL
  and timing (generation and execution time), or a failure with its stage and a message.
\<close>

record Timing =
  generationSeconds :: rat
  executionSeconds :: rat

datatype Stage = Generation | Validation | Execution

datatype QueryOutcome =
    Success QueryResult string Timing
  | Failure Stage string

text \<open>Modelled from the spec: ProviderDescriptor of section 3.\<close>

record ProviderDescriptor =
  provider_id :: string
  displayName :: string
  available :: bool
  costTier :: string

text \<open>
  Modelled from the spec: the error taxonomy of section 7. A generation error carries its
  kind and the provider's own raw message; a validation error carries the rule that
  failed and the offending word; an execution error carries the engine's message.
\<close>

datatype GenerationErrorKind = Transient | Auth | Quota | Malformed

datatype GenerationError = GenerationError GenerationErrorKind string

datatype ExtractionError = ExtractionError

datatype ValidationReason = UnsafeStatement | UnknownIdentifier | MultiStatement

datatype ValidationError = ValidationError ValidationReason string

datatype ExecutionFailure = ExecutionTimeout | ExecutionError string

subsection \<open>Generation providers and their registry\<close>

text \<open>
  Modelled from the spec: the provider interface and registry of \<open>llm/provider.py\<close>
  (section 4.1). A provider exposes \<open>describe\<close> and \<open>generate\<close>; \<open>generate\<close> is the
  network call and fails with a GenerationError. The context budget is the bound that
  section 4.2 truncates the schema against. The registry maps a model id to its provider
  and leaves out the providers that are not available.
\<close>

record Provider =
  describe :: ProviderDescriptor
  contextBudget :: nat
  generate :: "GenerationRequest \<Rightarrow> GenerationError + GenerationResult"

definition build_registry :: "Provider list \<Rightarrow> (string \<times> Provider) list" where
  "build_registry ps =
     map (\<lambda>p. (provider_id (describe p), p)) (filter (\<lambda>p. available (describe p)) ps)"

subsection \<open>Text utilities\<close>

text \<open>
  Modelled from the spec: plain helpers of the absent backend, decimal printing and
  reading of a row count, joining lines, and stripping ASCII white space.
\<close>

definition digit_char :: "nat \<Rightarrow> char" where
  "digit_char n = ''0123456789'' ! (n mod 10)"

fun show_nat :: "nat \<Rightarrow> string" where
  "show_nat n =
     (if n < 10 then [digit_char n] else show_nat (n div 10) @ [digit_char (n mod 10)])"

declare show_nat.simps [simp del]




fun join_with :: "string \<Rightarrow> string list \<Rightarrow> string" where
  "join_with sep [] = []"
| "join_with sep [x] = x"
| "join_with sep (x # y # ys) = x @ sep @ join_with sep (y # ys)"

definition is_space :: "char \<Rightarrow> bool" where
  "is_space c = (c \<in> set [CHR '' '', CHR 0x09, CHR 0x0A, CHR 0x0B, CHR 0x0C, CHR 0x0D])"

definition trim :: "string \<Rightarrow> string" where
  "trim s = rev (dropWhile is_space (rev (dropWhile is_space s)))"

subsection \<open>Tokens of a statement\<close>

text \<open>
  Modelled from the spec: the reading of a statement that section 4.3 presupposes when it
  speaks of separators and tokens "outside of string literals". A string literal is
  enclosed in single quotes, a doubled quote inside it stands for one quote, and a literal
  that is never closed runs to the end of the text. A word is a run of letters, digits and
  underscores; \<open>;\<close> is the statement separator; any other character that is not white
  space is a symbol. The text is read one character at a time. This is how SQL reads a
  text that has no comment and no identifier in double quotes, backticks or brackets;
  the validator refuses the texts that have one.
\<close>

datatype token = TWord string | TString string | TSemicolon | TSymbol char

datatype lex_mode = Outside | InWord | InString | QuoteSeen

definition is_word_char :: "char \<Rightarrow> bool" where
  "is_word_char c =
     (c \<in> set ''abcdefghijklmnopqrstuvwxyzABCDEFGHIJKLMNOPQRSTUVWXYZ0123456789_'')"

definition is_digit :: "char \<Rightarrow> bool" where
  "is_digit c = (c \<in> set ''0123456789'')"

definition outside_step :: "token list \<Rightarrow> char \<Rightarrow> lex_mode \<times> string \<times> token list" where
  "outside_step out c =
     (if c = CHR 0x27 then (InString, [], out)
      else if is_word_char c then (InWord, [c], out)
      else if c = CHR '';'' then (Outside, [], TSemicolon # out)
      else if is_space c then (Outside, [], out)
      else (Outside, [], TSymbol c # out))"

fun lex_step :: "lex_mode \<times> string \<times> token list \<Rightarrow> char \<Rightarrow> lex_mode \<times> string \<times> token list" where
  "lex_step (Outside, cur, out) c = outside_step out c"
| "lex_step (InWord, cur, out) c =
     (if is_word_char c then (InWord, c # cur, out)
      else outside_step (TWord (rev cur) # out) c)"
| "lex_step (InString, cur, out) c =
     (if c = CHR 0x27 then (QuoteSeen, cur, out) else (InString, c # cur, out))"
| "lex_step (QuoteSeen, cur, out) c =
     (if c = CHR 0x27 then (InString, c # cur, out)
      else outside_step (TString (rev cur) # out) c)"

fun lex_finish :: "lex_mode \<times> string \<times> token list \<Rightarrow> token list" where
  "lex_finish (Outside, cur, out) = rev out"
| "lex_finish (InWord, cur, out) = rev (TWord (rev cur) # out)"
| "lex_finish (InString, cur, out) = rev (TString (rev cur) # out)"
| "lex_finish (QuoteSeen, cur, out) = rev (TString (rev cur) # out)"

definition tokenize :: "string \<Rightarrow> token list" where
  "tokenize text = lex_finish (foldl lex_step (Outside, [], []) text)"

fun token_words :: "token list \<Rightarrow> string list" where
  "token_words [] = []"
| "token_words (TWord w # ts) = w # token_words ts"
| "token_words (t # ts) = token_words ts"

definition upper_char :: "char \<Rightarrow> char" where
  "upper_char c =
     (case map_of (zip ''abcdefghijklmnopqrstuvwxyz'' ''ABCDEFGHIJKLMNOPQRSTUVWXYZ'') c of
        Some u \<Rightarrow> u
      | None \<Rightarrow> c)"

definition upper :: "string \<Rightarrow> string" where
  "upper w = map upper_char w"

subsection \<open>Prompt Builder\<close>

text \<open>
  Modelled from the spec: the Prompt Builder (section 4.2), \<open>build(question, schema,
  priorExamples?)\<close>. The request names the model, and the schema is cut to the provider's
  context budget, so the model id and the budget are arguments as well. The instructions
  carry the three constraints of section 4.2. Tables are ranked by the static heuristic
  the spec suggests, the number of their table and column names that occur as words of
  the question, and kept in that order while their rendered text fits the budget.
\<close>

definition safety_instructions :: string where
  "safety_instructions =
     ''Answer with a single read-only SELECT statement. '' @
     ''Reference only tables and columns present in the schema. '' @
     ''Do not include comments or multiple statements.''"

definition render_table :: "TableSpec \<Rightarrow> string" where
  "render_table t =
     t_name t @ ''('' @
     join_with '', '' (map (\<lambda>c. c_name c @ '' '' @ c_type c) (t_columns t)) @ '')''"

definition relevance :: "string \<Rightarrow> TableSpec \<Rightarrow> nat" where
  "relevance q t =
     length (filter (\<lambda>n. upper n \<in> set (map upper (token_words (tokenize q))))
               (t_name t # map c_name (t_columns t)))"

fun take_within :: "nat \<Rightarrow> string list \<Rightarrow> string list" where
  "take_within budget [] = []"
| "take_within budget (x # xs) =
     (if length x \<le> budget then x # take_within (budget - length x) xs else [])"

definition render_examples :: "(string \<times> string) list option \<Rightarrow> string" where
  "render_examples priorExamples =
     (case priorExamples of
        None \<Rightarrow> []
      | Some exs \<Rightarrow> concat (map (\<lambda>(q, a). [CHR 0x0A] @ ''Q: '' @ q @ [CHR 0x0A] @ ''A: '' @ a) exs))"

definition build ::
  "string \<Rightarrow> nat \<Rightarrow> string \<Rightarrow> SchemaDescriptor \<Rightarrow> (string \<times> string) list option
     \<Rightarrow> GenerationRequest" where
  "build model budget q schema priorExamples =
     \<lparr> question = q,
       schemaContext =
         safety_instructions @ [CHR 0x0A] @
         join_with [CHR 0x0A]
           (take_within budget
              (map render_table (sort_key (\<lambda>t. - int (relevance q t)) (tables schema)))) @
         render_examples priorExamples,
       modelId = model \<rparr>"

subsection \<open>SQL Extractor and Validator\<close>

text \<open>
  Modelled from the spec: extraction (section 4.3, phase 1). The statement is what stands
  inside the first fenced block of the raw text, after an optional \<open>sql\<close> tag, or the whole
  text when there is no fence, with the surrounding white space removed. Nothing left is
  an ExtractionError.
\<close>

fun after_fence :: "string \<Rightarrow> string option" where
  "after_fence (a # b # c # rest) =
     (if a = CHR ''`'' \<and> b = CHR ''`'' \<and> c = CHR ''`'' then Some rest
      else after_fence (b # c # rest))"
| "after_fence s = None"

fun before_fence :: "string \<Rightarrow> string" where
  "before_fence (a # b # c # rest) =
     (if a = CHR ''`'' \<and> b = CHR ''`'' \<and> c = CHR ''`'' then []
      else a # before_fence (b # c # rest))"
| "before_fence s = s"

definition drop_language_tag :: "string \<Rightarrow> string" where
  "drop_language_tag s = (if upper (take 3 s) = ''SQL'' then drop 3 s else s)"

definition extract_sql :: "string \<Rightarrow> ExtractionError + string" where
  "extract_sql raw =
     (let inner = (case after_fence raw of
                     None \<Rightarrow> raw
                   | Some rest \<Rightarrow> before_fence (drop_language_tag rest));
          stmt = trim inner
      in if stmt = [] then Inl ExtractionError else Inr stmt)"

text \<open>
  Modelled from the spec: validation (section 4.3, phase 2). The rules are tried in the
  order the spec lists them, and the first that holds gives the reason (section 8 needs
  the separator to go before the deny-list: \<open>SELECT 1; DROP TABLE plays;\<close> must fail as
  \<open>multiStatement\<close>):
  \<^enum> a statement separator outside string literals: \<open>multiStatement\<close>;
  \<^enum> a leading keyword other than \<open>SELECT\<close>, or \<open>WITH\<close> with a \<open>SELECT\<close> after it:
    \<open>unsafeStatement\<close>. The validation is allow-list-biased ("reject anything not
    provably safe"), so the same reason is given to a text that cannot be read with
    single-quoted literals alone: one with a comment marker (\<open>--\<close>, \<open>/*\<close>), with a
    double quote, a backtick or a bracket anywhere, with a literal that is never closed,
    or with parentheses that do not match;
  \<^enum> a word of the deny-list outside string literals, in any letter case:
    \<open>unsafeStatement\<close>;
  \<^enum> a referenced name that the Schema Descriptor does not have: \<open>unknownIdentifier\<close>.
    A word outside string literals that starts with a letter or an underscore, is not
    followed by an opening parenthesis and is not a keyword of the read-only grammar is
    taken as a referenced name; names are compared without regard to letter case;
  \<^enum> no \<open>LIMIT\<close> word outside string literals and outside parentheses: not a
    rejection; \<open>LIMIT\<close> and the configured cap are appended to the text.
\<close>

definition deny_list :: "string list" where
  "deny_list =
     [''INSERT'', ''UPDATE'', ''DELETE'', ''DROP'', ''ALTER'', ''CREATE'', ''ATTACH'',
      ''PRAGMA'', ''VACUUM'', ''REPLACE'']"

definition sql_keywords :: "string list" where
  "sql_keywords =
     [''SELECT'', ''WITH'', ''FROM'', ''WHERE'', ''GROUP'', ''BY'', ''HAVING'', ''ORDER'',
      ''LIMIT'', ''OFFSET'', ''AS'', ''AND'', ''OR'', ''NOT'', ''IN'', ''IS'', ''NULL'',
      ''LIKE'', ''BETWEEN'', ''JOIN'', ''INNER'', ''LEFT'', ''OUTER'', ''CROSS'', ''ON'',
      ''USING'', ''DISTINCT'', ''ALL'', ''UNION'', ''EXCEPT'', ''INTERSECT'', ''CASE'',
      ''WHEN'', ''THEN'', ''ELSE'', ''END'', ''ASC'', ''DESC'', ''EXISTS'']"

fun has_comment_marker :: "string \<Rightarrow> bool" where
  "has_comment_marker (a # b # cs) =
     ((a = CHR ''-'' \<and> b = CHR ''-'') \<or> (a = CHR ''/'' \<and> b = CHR ''*'') \<or>
      has_comment_marker (b # cs))"
| "has_comment_marker cs = False"

definition other_quoting :: "string \<Rightarrow> bool" where
  "other_quoting text =
     (has_comment_marker text \<or> CHR 0x22 \<in> set text \<or> CHR ''`'' \<in> set text \<or>
      CHR ''['' \<in> set text \<or> CHR '']'' \<in> set text)"

definition unterminated_literal :: "string \<Rightarrow> bool" where
  "unterminated_literal text = (fst (foldl lex_step (Outside, [], []) text) = InString)"

fun balanced :: "nat \<Rightarrow> token list \<Rightarrow> bool" where
  "balanced d [] = (d = 0)"
| "balanced d (TSymbol c # ts) =
     (if c = CHR ''('' then balanced (Suc d) ts
      else if c = CHR '')'' then 0 < d \<and> balanced (d - 1) ts
      else balanced d ts)"
| "balanced d (t # ts) = balanced d ts"

fun top_words :: "nat \<Rightarrow> token list \<Rightarrow> string list" where
  "top_words d [] = []"
| "top_words d (TSymbol c # ts) =
     (if c = CHR ''('' then top_words (Suc d) ts
      else if c = CHR '')'' then top_words (d - 1) ts
      else top_words d ts)"
| "top_words d (TWord w # ts) = (if d = 0 then w # top_words d ts else top_words d ts)"
| "top_words d (t # ts) = top_words d ts"

definition denied_words :: "token list \<Rightarrow> string list" where
  "denied_words toks = filter (\<lambda>w. upper w \<in> set deny_list) (token_words toks)"

definition leading_read_keyword :: "token list \<Rightarrow> bool" where
  "leading_read_keyword toks =
     (case toks of
        TWord w # rest \<Rightarrow>
          upper w = ''SELECT'' \<or>
          (upper w = ''WITH'' \<and> ''SELECT'' \<in> set (map upper (token_words rest)))
      | _ \<Rightarrow> False)"

definition schema_names :: "SchemaDescriptor \<Rightarrow> string list" where
  "schema_names schema =
     map upper (concat (map (\<lambda>t. t_name t # map c_name (t_columns t)) (tables schema)))"

definition is_identifier :: "string \<Rightarrow> bool" where
  "is_identifier w = (case w of [] \<Rightarrow> False | c # cs \<Rightarrow> \<not> is_digit c)"

fun referenced_identifiers :: "token list \<Rightarrow> string list" where
  "referenced_identifiers [] = []"
| "referenced_identifiers (TWord w # ts) =
     (if is_identifier w \<and> upper w \<notin> set sql_keywords \<and>
         (case ts of TSymbol c # rest \<Rightarrow> c \<noteq> CHR ''('' | _ \<Rightarrow> True)
      then w # referenced_identifiers ts else referenced_identifiers ts)"
| "referenced_identifiers (t # ts) = referenced_identifiers ts"

definition unknown_identifiers :: "SchemaDescriptor \<Rightarrow> token list \<Rightarrow> string list" where
  "unknown_identifiers schema toks =
     filter (\<lambda>w. upper w \<notin> set (schema_names schema)) (referenced_identifiers toks)"

definition has_limit :: "token list \<Rightarrow> bool" where
  "has_limit toks = (''LIMIT'' \<in> set (map upper (top_words 0 toks)))"

text \<open>
  Modelled from the spec: the rule that rejects a text, if any (rules 1 to 4 above), and
  the validator, which returns that rejection or the statement, with the limit injected
  where the text has none (rule 5).
\<close>

definition rejection :: "SchemaDescriptor \<Rightarrow> string \<Rightarrow> ValidationError option" where
  "rejection schema text =
     (let toks = tokenize text in
      if TSemicolon \<in> set toks then Some (ValidationError MultiStatement '';'')
      else if \<not> leading_read_keyword toks \<or> other_quoting text \<or>
              unterminated_literal text \<or> \<not> balanced 0 toks then
        Some (ValidationError UnsafeStatement
                (case token_words toks of [] \<Rightarrow> [] | w # ws \<Rightarrow> w))
      else
        (case denied_words toks of
           w # ws \<Rightarrow> Some (ValidationError UnsafeStatement w)
         | [] \<Rightarrow>
             (case unknown_identifiers schema toks of
                w # ws \<Rightarrow> Some (ValidationError UnknownIdentifier w)
              | [] \<Rightarrow> None)))"

definition validate :: "SchemaDescriptor \<Rightarrow> nat \<Rightarrow> string \<Rightarrow> ValidationError + ValidatedStatement" where
  "validate schema cap text =
     (case rejection schema text of
        Some e \<Rightarrow> Inl e
      | None \<Rightarrow>
          Inr \<lparr> sql = (if has_limit (tokenize text) then text
                       else text @ '' LIMIT '' @ show_nat cap),
                statementKind = SELECT \<rparr>)"





subsection \<open>Query Executor\<close>

text \<open>
  Modelled from the spec: the Query Executor (section 4.4). The dataset is a capability
  the executor holds: it runs a statement text and either times out, raises the driver's
  exception, which has the engine's message and an internal stack trace, or yields column
  names, rows and the elapsed time. The executor turns the exception into
  \<open>ExecutionError\<close> with the engine's message alone, keeps at most \<open>maxRows\<close> rows,
  whatever \<open>LIMIT\<close> the statement has, and shapes each row into a mapping from column to
  value.
\<close>

record DriverException =
  engine_message :: string
  stack_trace :: string

datatype EngineOutcome =
    EngineTimedOut
  | EngineRaised DriverException
  | EngineRows "string list" "sql_value list list" rat

record PipelineConfig =
  limitCap :: nat
  maxRows :: nat

definition execute ::
  "(string \<Rightarrow> EngineOutcome) \<Rightarrow> PipelineConfig \<Rightarrow> ValidatedStatement
     \<Rightarrow> ExecutionFailure + QueryResult" where
  "execute engine cfg stmt =
     (case engine (sql stmt) of
        EngineTimedOut \<Rightarrow> Inl ExecutionTimeout
      | EngineRaised x \<Rightarrow> Inl (ExecutionError (engine_message x))
      | EngineRows cols rs t \<Rightarrow>
          (let kept = take (maxRows cfg) rs
           in Inr \<lparr> columns = cols, rows = map (zip cols) kept,
                   rowCount = length kept, dbElapsedSeconds = t \<rparr>))"

subsection \<open>Orchestrator\<close>

text \<open>
  Modelled from the spec: the Orchestrator (sections 4.5 and 7). One request runs the
  stages in order, stops at the first failure and returns the outcome together with the
  calls it made to the two external collaborators, in order: the provider's \<open>generate\<close>
  and the executor. Extraction belongs to the validation stage. A generation failure is
  reported by a message chosen from its kind alone; a validation failure names the rule
  and the word; an execution failure gives the time-out notice or the engine's message.
\<close>

datatype call = ProviderCalled GenerationRequest | ExecutorCalled ValidatedStatement

definition generation_message :: "GenerationErrorKind \<Rightarrow> string" where
  "generation_message k =
     (case k of
        Transient \<Rightarrow> ''The model is busy. Please try again.''
      | Quota \<Rightarrow> ''The model is busy. Please try again.''
      | Auth \<Rightarrow> ''The model rejected the configured credentials.''
      | Malformed \<Rightarrow> ''The model returned no usable answer.'')"

definition validation_message :: "ValidationError \<Rightarrow> string" where
  "validation_message e =
     (case e of
        ValidationError MultiStatement w \<Rightarrow> ''Only a single statement is allowed.''
      | ValidationError UnsafeStatement w \<Rightarrow> ''Only read queries are allowed: '' @ w
      | ValidationError UnknownIdentifier w \<Rightarrow> ''Unknown table or column: '' @ w)"

definition execution_message :: "ExecutionFailure \<Rightarrow> string" where
  "execution_message e =
     (case e of
        ExecutionTimeout \<Rightarrow> ''The query took too long and was stopped.''
      | ExecutionError m \<Rightarrow> m)"

definition process_query ::
  "(string \<times> Provider) list \<Rightarrow> SchemaDescriptor \<Rightarrow> PipelineConfig
     \<Rightarrow> (string \<Rightarrow> EngineOutcome) \<Rightarrow> string \<Rightarrow> string \<Rightarrow> QueryOutcome \<times> call list" where
  "process_query registry schema cfg engine q model =
     (case map_of registry model of
        None \<Rightarrow> (Failure Generation (''Model not available: '' @ model), [])
      | Some p \<Rightarrow>
          (let req = build model (contextBudget p) q schema None in
           case generate p req of
             Inl (GenerationError k raw) \<Rightarrow>
               (Failure Generation (generation_message k), [ProviderCalled req])
           | Inr gres \<Rightarrow>
               (case extract_sql (rawText gres) of
                  Inl ee \<Rightarrow>
                    (Failure Validation ''No SQL statement found in the answer.'',
                     [ProviderCalled req])
                | Inr text \<Rightarrow>
                    (case validate schema (limitCap cfg) text of
                       Inl ve \<Rightarrow>
                         (Failure Validation (validation_message ve), [ProviderCalled req])
                     | Inr stmt \<Rightarrow>
                         (case execute engine cfg stmt of
                            Inl xe \<Rightarrow>
                              (Failure Execution (execution_message xe),
                               [ProviderCalled req, ExecutorCalled stmt])
                          | Inr qr \<Rightarrow>
                              (Success qr (sql stmt)
                                 \<lparr> generationSeconds = elapsedSeconds gres,
                                   executionSeconds = dbElapsedSeconds qr \<rparr>,
                               [ProviderCalled req, ExecutorCalled stmt]))))))"

subsection \<open>Test doubles\<close>

text \<open>
  Modelled from the spec: the doubles that section 8 tests with, a fixture schema with the
  table \<open>plays(player, yards)\<close>, a stub provider that always returns the same text, and a
  fixture dataset that answers every statement with the same row.
\<close>

definition fixture_schema :: SchemaDescriptor where
  "fixture_schema =
     \<lparr> schema_version = ''1'',
       tables = [\<lparr> t_name = ''plays'',
                   t_columns = [\<lparr> c_name = ''player'', c_type = ''TEXT'', c_description = [] \<rparr>,
                                \<lparr> c_name = ''yards'', c_type = ''INTEGER'', c_description = [] \<rparr>] \<rparr>] \<rparr>"

definition stub_provider :: "string \<Rightarrow> string \<Rightarrow> Provider" where
  "stub_provider model answer =
     \<lparr> describe = \<lparr> provider_id = model, displayName = model, available = True,
                    costTier = ''free'' \<rparr>,
       contextBudget = 1000,
       generate = (\<lambda>req. Inr \<lparr> rawText = answer, result_modelId = model,
                                elapsedSeconds = 1 \<rparr>) \<rparr>"

definition fixture_engine :: "string \<Rightarrow> EngineOutcome" where
  "fixture_engine text =
     EngineRows [''player'', ''yards''] [[SqlText ''Goff'', SqlNumber 300]] 0"

section \<open>Properties of the frontend\<close>

text \<open>
  C9 (as amended). In the auth context, \<open>login\<close> and \<open>register\<close> store the token in
  \<open>sessionStorage\<close> and set the \<open>user\<close> and \<open>token\<close> state exactly when the response body
  has a truthy \<open>success\<close> and a token (a truthy \<open>token\<close>, as the guard tests it) and
  \<open>sessionStorage.setItem\<close> does not throw on that token; then they return
  \<open>{success: true}\<close>. On every other path (a body without success, without token, a body
  that is no object, a rejected request, a token that cannot be converted to a string, a
  write the browser refuses) they return \<open>{success: false, error: ...}\<close> with a truthy
  error and leave \<open>sessionStorage\<close> and the state as they were.
\<close>

theorem auth_login_register_token:
  "(case granted_token (fetch_json fetch (login_request username password)) of
      None \<Rightarrow> failure_object (fst (login fetch accepts username password w)) \<and> snd (login fetch accepts username password w) = w
    | Some t \<Rightarrow>
        (case setItem accepts (sessionStorage w) ''token'' t of
           Inl e \<Rightarrow> failure_object (fst (login fetch accepts username password w)) \<and> snd (login fetch accepts username password w) = w
         | Inr store \<Rightarrow>
             login fetch accepts username password w =
               (JObj [(''success'', JBool True)],
                w\<lparr> sessionStorage := store, token := t,
                   user := field_or_undefined (fetch_json fetch (login_request username password)) ''user'' \<rparr>)))
   \<and>
   (case granted_token (fetch_json fetch (register_request username email password)) of
      None \<Rightarrow> failure_object (fst (register fetch accepts username email password w)) \<and> snd (register fetch accepts username email password w) = w
    | Some t \<Rightarrow>
        (case setItem accepts (sessionStorage w) ''token'' t of
           Inl e \<Rightarrow> failure_object (fst (register fetch accepts username email password w)) \<and> snd (register fetch accepts username email password w) = w
         | Inr store \<Rightarrow>
             register fetch accepts username email password w =
               (JObj [(''success'', JBool True)],
                w\<lparr> sessionStorage := store, token := t,
                   user := field_or_undefined (fetch_json fetch (register_request username email password)) ''user'' \<rparr>)))"
proof (rule conjI)
  show "(case granted_token (fetch_json fetch (login_request username password)) of
      None \<Rightarrow> failure_object (fst (login fetch accepts username password w)) \<and> snd (login fetch accepts username password w) = w
    | Some t \<Rightarrow>
        (case setItem accepts (sessionStorage w) ''token'' t of
           Inl e \<Rightarrow> failure_object (fst (login fetch accepts username password w)) \<and> snd (login fetch accepts username password w) = w
         | Inr store \<Rightarrow>
             login fetch accepts username password w =
               (JObj [(''success'', JBool True)],
                w\<lparr> sessionStorage := store, token := t,
                   user := field_or_undefined (fetch_json fetch (login_request username password)) ''user'' \<rparr>)))"
  proof (cases "fetch_json fetch (login_request username password)")
    case (Inl e)
    then show ?thesis
      by (simp add: login_def granted_token_def failure_object_def)
  next
    case (Inr data)
    then show ?thesis
      by (cases data)
         (auto simp: login_def granted_token_def failure_object_def field_or_undefined_def
                     js_or_def split: option.splits sum.splits)
  qed
next
  show "(case granted_token (fetch_json fetch (register_request username email password)) of
      None \<Rightarrow> failure_object (fst (register fetch accepts username email password w)) \<and> snd (register fetch accepts username email password w) = w
    | Some t \<Rightarrow>
        (case setItem accepts (sessionStorage w) ''token'' t of
           Inl e \<Rightarrow> failure_object (fst (register fetch accepts username email password w)) \<and> snd (register fetch accepts username email password w) = w
         | Inr store \<Rightarrow>
             register fetch accepts username email password w =
               (JObj [(''success'', JBool True)],
                w\<lparr> sessionStorage := store, token := t,
                   user := field_or_undefined (fetch_json fetch (register_request username email password)) ''user'' \<rparr>)))"
  proof (cases "fetch_json fetch (register_request username email password)")
    case (Inl e)
    then show ?thesis
      by (simp add: register_def granted_token_def failure_object_def)
  next
    case (Inr data)
    then show ?thesis
      by (cases data)
         (auto simp: register_def granted_token_def failure_object_def field_or_undefined_def
                     js_or_def split: option.splits sum.splits)
  qed
qed

theorem auth_login_register_token_witness:
  "login (\<lambda>req. Inr \<lparr> ok = True, statusText = ''OK'', json_body = Inr (JObj [(''success'', JBool True), (''token'', JStr ''abc''), (''user'', JStr ''joe'')]) \<rparr>) (\<lambda>k v. True) ''joe'' ''secret99'' \<lparr> user = JNull, token = JNull, loading = False, sessionStorage = Map.empty \<rparr>
     = (JObj [(''success'', JBool True)],
        \<lparr> user = JStr ''joe'', token = JStr ''abc'', loading = False,
          sessionStorage = [''token'' \<mapsto> ''abc''] \<rparr>)
   \<and> snd (register (\<lambda>req. Inr \<lparr> ok = False, statusText = ''Bad Request'', json_body = Inr (JObj [(''success'', JBool False), (''message'', JStr ''Username taken'')]) \<rparr>) (\<lambda>k v. True)
             ''joe'' ''joe@example.org'' ''secret99'' \<lparr> user = JNull, token = JNull, loading = False, sessionStorage = Map.empty \<rparr>)
     = \<lparr> user = JNull, token = JNull, loading = False, sessionStorage = Map.empty \<rparr>"
proof -
  have a: "login (\<lambda>req. Inr \<lparr> ok = True, statusText = ''OK'', json_body = Inr (JObj [(''success'', JBool True), (''token'', JStr ''abc''), (''user'', JStr ''joe'')]) \<rparr>) (\<lambda>k v. True) ''joe'' ''secret99'' \<lparr> user = JNull, token = JNull, loading = False, sessionStorage = Map.empty \<rparr>
     = (JObj [(''success'', JBool True)],
        \<lparr> user = JStr ''joe'', token = JStr ''abc'', loading = False,
          sessionStorage = [''token'' \<mapsto> ''abc''] \<rparr>)"
    using auth_login_register_token
      [where fetch = "(\<lambda>req. Inr \<lparr> ok = True, statusText = ''OK'', json_body = Inr (JObj [(''success'', JBool True), (''token'', JStr ''abc''), (''user'', JStr ''joe'')]) \<rparr>)" and username = "''joe''" and password = "''secret99''"
         and accepts = "(\<lambda>k v. True)" and w = "\<lparr> user = JNull, token = JNull, loading = False, sessionStorage = Map.empty \<rparr>" and email = "''joe@example.org''"]
    by (simp add: granted_token_def fetch_json_def field_or_undefined_def setItem_def)
  have b: "snd (register (\<lambda>req. Inr \<lparr> ok = False, statusText = ''Bad Request'', json_body = Inr (JObj [(''success'', JBool False), (''message'', JStr ''Username taken'')]) \<rparr>) (\<lambda>k v. True)
             ''joe'' ''joe@example.org'' ''secret99'' \<lparr> user = JNull, token = JNull, loading = False, sessionStorage = Map.empty \<rparr>)
     = \<lparr> user = JNull, token = JNull, loading = False, sessionStorage = Map.empty \<rparr>"
    using auth_login_register_token
      [where fetch = "(\<lambda>req. Inr \<lparr> ok = False, statusText = ''Bad Request'', json_body = Inr (JObj [(''success'', JBool False), (''message'', JStr ''Username taken'')]) \<rparr>)" and username = "''joe''" and password = "''secret99''"
         and accepts = "(\<lambda>k v. True)" and w = "\<lparr> user = JNull, token = JNull, loading = False, sessionStorage = Map.empty \<rparr>" and email = "''joe@example.org''"]
    by (simp add: granted_token_def fetch_json_def)
  from a b show ?thesis by simp
qed

text \<open>
  The claim as stated, with the response alone deciding, fails: for the body
  \<open>{"success": true, "token": {"toString": 1}}\<close> both \<open>success\<close> and \<open>token\<close> are
  truthy, \<open>setItem\<close> throws while converting the token, and \<open>login\<close> returns the
  network error with nothing stored and no state set.
\<close>

theorem auth_token_not_stored_counterexample:
  "granted_token (Inr (JObj [(''success'', JBool True), (''token'', JObj [(''toString'', JNum ''1'' True)])]))
     = Some (JObj [(''toString'', JNum ''1'' True)])
   \<and> login (\<lambda>req. Inr \<lparr> ok = True, statusText = ''OK'', json_body = Inr (JObj [(''success'', JBool True), (''token'', JObj [(''toString'', JNum ''1'' True)])]) \<rparr>) (\<lambda>k v. True) ''joe'' ''secret99'' \<lparr> user = JNull, token = JNull, loading = False, sessionStorage = Map.empty \<rparr>
     = (JObj [(''success'', JBool False),
              (''error'', JStr ''Network error. Please try again.'')],
        \<lparr> user = JNull, token = JNull, loading = False, sessionStorage = Map.empty \<rparr>)"
  by (simp add: granted_token_def login_def fetch_json_def setItem_def)

text \<open>
  C10. \<open>updateQuery\<close> reads the name \<open>query\<close>, which no scope around it binds: whatever
  the server would answer, no request is sent, the error shown is "Failed to update query"
  and nothing else of the state changes, so the list and the name being edited stay as
  they were. \<open>saveEdit\<close> reaches \<open>updateQuery\<close> when the trimmed name is not empty,
  cancels the edit when it is empty, and throws when the name is no string; in no case is
  a request sent or the list changed, so no rename succeeds.
\<close>

theorem updateQuery_never_succeeds:
  "updateQuery fetch p queryId newName st
     = (st\<lparr> sq_error := JStr ''Failed to update query'' \<rparr>, [])
   \<and> saveEdit js_trim fetch p queryId st
     = (case editName st of
          JStr s \<Rightarrow>
            Inr (if js_trim s \<noteq> []
                 then (st\<lparr> sq_error := JStr ''Failed to update query'' \<rparr>, [])
                 else (st\<lparr> editingId := JNull, editName := JStr [] \<rparr>, []))
        | v \<Rightarrow> Inl (TypeError ''trim''))"
proof -
  have u: "updateQuery fetch p queryId n st
     = (st\<lparr> sq_error := JStr ''Failed to update query'' \<rparr>, [])" for n
    by (simp add: updateQuery_def lookup_identifier_def updateQuery_scope_def
             split: sum.splits)
  show ?thesis
    by (simp add: u saveEdit_def cancelEdit_def split: json.splits)
qed

theorem updateQuery_never_succeeds_witness:
  "saveEdit (\<lambda>s. s)
        (\<lambda>req. Inr \<lparr> ok = True, statusText = ''OK'',
                            json_body = Inr (JObj [(''success'', JBool True)]) \<rparr>)
        \<lparr> sq_token = JStr ''abc'', currentQuery = JNull \<rparr> (JNum ''7'' True)
        \<lparr> savedQueries = JArr [JObj [(''id'', JNum ''7'' True), (''queryName'', JStr ''QBs'')]],
          sq_loading = False, sq_error = JNull, editingId = JNum ''7'' True,
          editName = JStr ''Top QBs'', savingCurrent = False, newQueryName = [] \<rparr>
     = Inr (\<lparr> savedQueries = JArr [JObj [(''id'', JNum ''7'' True), (''queryName'', JStr ''QBs'')]],
          sq_loading = False, sq_error = JStr ''Failed to update query'',
          editingId = JNum ''7'' True,
          editName = JStr ''Top QBs'', savingCurrent = False, newQueryName = [] \<rparr>, [])"
  using updateQuery_never_succeeds
      [where js_trim = "\<lambda>s. s"
         and fetch = "(\<lambda>req. Inr \<lparr> ok = True, statusText = ''OK'',
                            json_body = Inr (JObj [(''success'', JBool True)]) \<rparr>)"
         and p = "\<lparr> sq_token = JStr ''abc'', currentQuery = JNull \<rparr>"
         and queryId = "JNum ''7'' True"
         and st = "\<lparr> savedQueries = JArr [JObj [(''id'', JNum ''7'' True), (''queryName'', JStr ''QBs'')]],
          sq_loading = False, sq_error = JNull, editingId = JNum ''7'' True,
          editName = JStr ''Top QBs'', savingCurrent = False, newQueryName = [] \<rparr>"]
  by simp

section \<open>Properties of the query pipeline\<close>

subsection \<open>The injected limit is read as a limit\<close>

lemma show_nat_digits: "show_nat n \<noteq> [] \<and> (\<forall>c \<in> set (show_nat n). is_digit c)"
proof (induction n rule: show_nat.induct)
  case (1 n)
  have d: "is_digit (digit_char k)" for k
    unfolding is_digit_def digit_char_def by (rule nth_mem) simp
  show ?case
  proof (cases "n < 10")
    case True
    then show ?thesis by (simp add: show_nat.simps [of n] d)
  next
    case False
    with 1 show ?thesis by (simp add: show_nat.simps [of n] d)
  qed
qed

lemma digit_word_char: "is_digit c \<Longrightarrow> is_word_char c \<and> c \<noteq> CHR 0x27"
  by (auto simp: is_digit_def is_word_char_def)

lemma fold_word: "\<forall>c \<in> set ds. is_word_char c \<Longrightarrow>
   foldl lex_step (InWord, cur, out) ds = (InWord, rev ds @ cur, out)"
  by (induction ds arbitrary: cur) auto

lemma fold_digits_outside:
  assumes "ds \<noteq> []" "\<forall>c \<in> set ds. is_digit c"
  shows "foldl lex_step (Outside, cur, out) ds = (InWord, rev ds, out)"
proof -
  from assms obtain d ds' where ds: "ds = d # ds'" by (cases ds) auto
  with assms have w: "is_word_char d" "d \<noteq> CHR 0x27" "\<forall>c \<in> set ds'. is_word_char c"
    by (auto dest: digit_word_char)
  then show ?thesis by (simp add: ds outside_step_def fold_word)
qed

lemma space_outside: "outside_step out CHR '' '' = (Outside, [], out)"
  by (simp add: outside_step_def is_word_char_def is_space_def)

lemma L_outside: "outside_step out CHR ''L'' = (InWord, ''L'', out)"
  by (simp add: outside_step_def is_word_char_def)

lemma space_not_word: "\<not> is_word_char CHR '' ''"
  by (simp add: is_word_char_def)

lemma limit_suffix_outside:
  assumes "ds \<noteq> []" "\<forall>c \<in> set ds. is_digit c"
  shows "foldl lex_step (Outside, cur, out) ('' LIMIT '' @ ds) = (InWord, rev ds, TWord ''LIMIT'' # out)"
proof -
  have "foldl lex_step (Outside, cur, out) ('' LIMIT '' @ ds)
        = foldl lex_step (InWord, ''L'', out) (''IMIT'' @ ('' '' @ ds))"
    by (simp add: space_outside L_outside)
  also have "\<dots> = foldl lex_step (foldl lex_step (InWord, ''L'', out) ''IMIT'') ('' '' @ ds)"
    by (simp only: foldl_append)
  also have "foldl lex_step (InWord, ''L'', out) ''IMIT'' = (InWord, rev ''IMIT'' @ ''L'', out)"
    by (rule fold_word) (simp add: is_word_char_def)
  also have "foldl lex_step (InWord, rev ''IMIT'' @ ''L'', out) ('' '' @ ds)
        = foldl lex_step (Outside, [], TWord ''LIMIT'' # out) ds"
    by (simp add: space_not_word space_outside)
  also have "\<dots> = (InWord, rev ds, TWord ''LIMIT'' # out)"
    by (rule fold_digits_outside [OF assms])
  finally show ?thesis .
qed

lemma space_step:
  "m \<noteq> InString \<Longrightarrow>
   lex_step (m, cur, out) CHR '' '' = (Outside, [], rev (lex_finish (m, cur, out)))"
  by (cases m) (simp_all add: space_not_word space_outside)

lemma tokenize_limit_suffix:
  assumes "\<not> unterminated_literal text" "ds \<noteq> []" "\<forall>c \<in> set ds. is_digit c"
  shows "tokenize (text @ '' LIMIT '' @ ds) = tokenize text @ [TWord ''LIMIT'', TWord ds]"
proof -
  obtain m cur out where st: "foldl lex_step (Outside, [], []) text = (m, cur, out)"
    by (cases "foldl lex_step (Outside, [], []) text") auto
  with assms(1) have m: "m \<noteq> InString" by (simp add: unterminated_literal_def)
  have "foldl lex_step (m, cur, out) ('' '' @ (''LIMIT '' @ ds))
        = foldl lex_step (Outside, [], rev (lex_finish (m, cur, out))) (''LIMIT '' @ ds)"
    by (simp add: space_step [OF m])
  also have "\<dots> = foldl lex_step (Outside, [], rev (lex_finish (m, cur, out))) ('' LIMIT '' @ ds)"
    by (simp add: space_outside)
  also have "\<dots> = (InWord, rev ds, TWord ''LIMIT'' # rev (lex_finish (m, cur, out)))"
    by (rule limit_suffix_outside [OF assms(2,3)])
  finally have "foldl lex_step (m, cur, out) ('' LIMIT '' @ ds)
        = (InWord, rev ds, TWord ''LIMIT'' # rev (lex_finish (m, cur, out)))"
    by simp
  then show ?thesis by (simp add: tokenize_def st)
qed

lemma token_words_append: "token_words (xs @ ys) = token_words xs @ token_words ys"
  by (induction xs rule: token_words.induct) auto

lemma upper_char_digit: "is_digit c \<Longrightarrow> upper_char c = c"
proof -
  have "\<forall>c \<in> set ''0123456789''. upper_char c = c"
    by (simp add: upper_char_def)
  then show "is_digit c \<Longrightarrow> upper_char c = c"
    unfolding is_digit_def by (rule bspec)
qed

lemma upper_digits: "\<forall>c \<in> set ds. is_digit c \<Longrightarrow> upper ds = ds"
  by (induction ds) (simp_all add: upper_def upper_char_digit)

lemma deny_words_have_letters: "\<forall>w \<in> set deny_list. \<exists>c \<in> set w. \<not> is_digit c"
  by (simp add: deny_list_def is_digit_def)

lemma digits_not_denied:
  assumes "\<forall>c \<in> set ds. is_digit c"
  shows "upper ds \<notin> set deny_list"
  using assms deny_words_have_letters by (auto simp: upper_digits)

lemma LIMIT_not_denied: "upper ''LIMIT'' \<notin> set deny_list"
  by (simp add: upper_def upper_char_def deny_list_def)

lemma denied_words_limit_suffix:
  assumes "\<not> unterminated_literal text"
  shows "denied_words (tokenize (text @ '' LIMIT '' @ show_nat cap)) = denied_words (tokenize text)"
proof -
  have d: "show_nat cap \<noteq> []" "\<forall>c \<in> set (show_nat cap). is_digit c"
    using show_nat_digits by auto
  have t: "tokenize (text @ '' LIMIT '' @ show_nat cap)
           = tokenize text @ [TWord ''LIMIT'', TWord (show_nat cap)]"
    by (rule tokenize_limit_suffix [OF assms d])
  show ?thesis
    unfolding t using LIMIT_not_denied digits_not_denied [OF d(2)]
    by (simp add: denied_words_def token_words_append)
qed





lemma balanced_append:
  "balanced d xs \<Longrightarrow> balanced d (xs @ ys) = balanced 0 ys"
  by (induction d xs rule: balanced.induct) (auto split: if_splits)


subsection \<open>The tokens are the words and separators outside the literals\<close>














subsection \<open>What an accepted text is\<close>












subsection \<open>The validator and the orchestrator\<close>














text \<open>
  C7. A request for a model id that the registry does not have fails at the generation
  stage with no call made, neither to a provider nor to the executor. The same holds for a
  registry built from providers of which none that bears the id is available.
\<close>

theorem absent_model_fails_before_any_call:
  "(map_of registry model = None \<longrightarrow>
      process_query registry schema cfg engine q model
        = (Failure Generation (''Model not available: '' @ model), []))
   \<and> ((\<forall>p \<in> set ps. provider_id (describe p) = model \<longrightarrow> \<not> available (describe p)) \<longrightarrow>
      process_query (build_registry ps) schema cfg engine q model
        = (Failure Generation (''Model not available: '' @ model), []))"
proof -
  have a: "process_query r schema cfg engine q model
        = (Failure Generation (''Model not available: '' @ model), [])"
    if "map_of r model = None" for r
    using that by (simp add: process_query_def)
  have b: "map_of (build_registry ps) model = None"
    if "\<forall>p \<in> set ps. provider_id (describe p) = model \<longrightarrow> \<not> available (describe p)"
    using that by (auto simp: build_registry_def map_of_eq_None_iff)
  from a b show ?thesis by blast
qed

theorem absent_model_fails_before_any_call_witness:
  "map_of [(''gemini'', stub_provider ''gemini'' ''SELECT player FROM plays'')] ''gpt-oss'' = None
   \<and> process_query [(''gemini'', stub_provider ''gemini'' ''SELECT player FROM plays'')]
        fixture_schema \<lparr> limitCap = 100, maxRows = 1000 \<rparr> fixture_engine
        ''yards by player'' ''gpt-oss''
      = (Failure Generation ''Model not available: gpt-oss'', [])
   \<and> process_query
        (build_registry
           [(stub_provider ''gpt-oss'' ''SELECT player FROM plays'')
              \<lparr> describe := \<lparr> provider_id = ''gpt-oss'', displayName = ''GPT-OSS'',
                              available = False, costTier = ''free'' \<rparr> \<rparr>])
        fixture_schema \<lparr> limitCap = 100, maxRows = 1000 \<rparr> fixture_engine
        ''yards by player'' ''gpt-oss''
      = (Failure Generation ''Model not available: gpt-oss'', [])"
  using absent_model_fails_before_any_call
    [of "[(''gemini'', stub_provider ''gemini'' ''SELECT player FROM plays'')]" "''gpt-oss''"
        fixture_schema "\<lparr> limitCap = 100, maxRows = 1000 \<rparr>" fixture_engine
        "''yards by player''"
        "[(stub_provider ''gpt-oss'' ''SELECT player FROM plays'')
              \<lparr> describe := \<lparr> provider_id = ''gpt-oss'', displayName = ''GPT-OSS'',
                              available = False, costTier = ''free'' \<rparr> \<rparr>]"]
  by simp

end
